theory Spec2Isabelle
  imports Main "HOL-Library.Sublist"
begin

section \<open>The sysinfo command of k0s: reporters, collector and driver\<close>

text \<open>
  A shallow embedding of \<^verbatim>\<open>cmd/sysinfo/sysinfo.go\<close>. The probe engine, the output
  sink, the colour library, the serializers and the quoting of \<^verbatim>\<open>%q\<close> are
  collaborators that live outside this package; each of them is a value or a function that
  the model takes as it is handed in.
\<close>

subsection \<open>Errors, descriptors and probed properties\<close>

text \<open>
  A Go \<^verbatim>\<open>error\<close> is used here through its \<^verbatim>\<open>Error()\<close> text only; the nil error is
  \<open>None\<close> of \<open>error option\<close>. \<^verbatim>\<open>errors.New\<close> and \<^verbatim>\<open>fmt.Errorf\<close> build such a value
  from a text.
\<close>

datatype error = GoError (Error_text: string)

definition errors_New :: "string \<Rightarrow> error" where
  "errors_New s = GoError s"

text \<open>
  \<^verbatim>\<open>probes.ProbeDesc\<close> is an interface with the methods \<^verbatim>\<open>Path()\<close> and
  \<^verbatim>\<open>DisplayName()\<close>. The callbacks call \<^verbatim>\<open>DisplayName()\<close> on the descriptor they get,
  so they take a descriptor value; only \<^verbatim>\<open>indent\<close> tests its argument against nil and
  takes a \<open>ProbeDesc option\<close>. A nil slice and an empty slice both have length 0 and are
  both the empty list.
\<close>

record ProbeDesc =
  desc_Path :: "string list"
  desc_DisplayName :: string

text \<open>\<^verbatim>\<open>probes.ProbedProp\<close> is an interface with the method \<^verbatim>\<open>String()\<close>; nil is \<open>None\<close>.\<close>

datatype ProbedProp = ProbedProp (String: string)

subsection \<open>The output sink\<close>

text \<open>
  An \<^verbatim>\<open>io.Writer\<close>. \<open>writes\<close> records the data of every \<^verbatim>\<open>Write\<close> call made so far,
  in order; \<open>reply\<close> is the sink's answer (nil or an error) to a call, which may depend on
  the calls before it; \<open>isTerminal\<close> is what \<^verbatim>\<open>term.IsTerminal\<close> says about the sink.
  The byte count a write returns is dropped at both call sites of the source.
\<close>

record Writer =
  writes :: "string list"
  reply :: "string list \<Rightarrow> string \<Rightarrow> error option"
  isTerminal :: bool

definition Write :: "Writer \<Rightarrow> string \<Rightarrow> error option \<times> Writer" where
  "Write out b = (reply out (writes out) b, out\<lparr>writes := writes out @ [b]\<rparr>)"

text \<open>\<^verbatim>\<open>io.WriteString\<close> makes one call of the sink's write method.\<close>

definition io_WriteString :: "Writer \<Rightarrow> string \<Rightarrow> error option \<times> Writer" where
  "io_WriteString out s = Write out s"

subsection \<open>Colours\<close>

text \<open>
  The part of the aurora library the reporter uses. A colour is a foreground and the bold
  flag. \<^verbatim>\<open>NewAurora(false)\<close> gives a palette whose values format as the plain text;
  \<^verbatim>\<open>NewAurora(true)\<close> gives one whose values format through the library's escape
  sequences, which the model takes as the function \<open>paint\<close>.
\<close>

datatype FgColor = BrightWhiteFg | GreenFg | YellowFg | RedFg

record Color =
  fg :: "FgColor option"
  boldFm :: bool

definition fgColor :: "FgColor \<Rightarrow> Color" where
  "fgColor c = \<lparr>fg = Some c, boldFm = False\<rparr>"

definition boldFgColor :: "FgColor \<Rightarrow> Color" where
  "boldFgColor c = \<lparr>fg = Some c, boldFm = True\<rparr>"

type_synonym painter = "Color \<Rightarrow> string \<Rightarrow> string"

datatype Aurora = auroraClear | aurora painter

datatype Value = valueClear string | valueColor painter Color string

definition NewAurora :: "painter \<Rightarrow> bool \<Rightarrow> Aurora" where
  "NewAurora paint enableColors = (if enableColors then aurora paint else auroraClear)"

fun colorize :: "Aurora \<Rightarrow> Color \<Rightarrow> string \<Rightarrow> Value" where
  "colorize auroraClear c s = valueClear s"
| "colorize (aurora paint) c s = valueColor paint c s"

definition BrightWhite :: "Aurora \<Rightarrow> string \<Rightarrow> Value" where
  "BrightWhite au s = colorize au (fgColor BrightWhiteFg) s"

definition Green :: "Aurora \<Rightarrow> string \<Rightarrow> Value" where
  "Green au s = colorize au (fgColor GreenFg) s"

definition Yellow :: "Aurora \<Rightarrow> string \<Rightarrow> Value" where
  "Yellow au s = colorize au (fgColor YellowFg) s"

definition Red :: "Aurora \<Rightarrow> string \<Rightarrow> Value" where
  "Red au s = colorize au (fgColor RedFg) s"

definition Bold :: "Aurora \<Rightarrow> string \<Rightarrow> Value" where
  "Bold au s = colorize au \<lparr>fg = None, boldFm = True\<rparr> s"

text \<open>\<^verbatim>\<open>Bold\<close> applied to a value, and the method \<^verbatim>\<open>Red()\<close> of a value.\<close>

fun Bold_Value :: "Value \<Rightarrow> Value" where
  "Bold_Value (valueClear s) = valueClear s"
| "Bold_Value (valueColor paint c s) = valueColor paint (c\<lparr>boldFm := True\<rparr>) s"

fun Value_Red :: "Value \<Rightarrow> Value" where
  "Value_Red (valueClear s) = valueClear s"
| "Value_Red (valueColor paint c s) = valueColor paint (c\<lparr>fg := Some RedFg\<rparr>) s"

text \<open>
  An argument of \<^verbatim>\<open>aurora.Sprintf\<close> is a string or a value. Both format strings of the
  source are a run of \<^verbatim>\<open>%s\<close>, one for each argument, followed by a newline.
\<close>

datatype arg = Str string | Val Value

fun Format :: "arg \<Rightarrow> string" where
  "Format (Str s) = s"
| "Format (Val (valueClear s)) = s"
| "Format (Val (valueColor paint c s)) = paint c s"

definition aurora_Sprintf :: "arg list \<Rightarrow> string" where
  "aurora_Sprintf args = concat (map Format args) @ ''\<newline>''"

subsection \<open>Shared helpers\<close>

definition probePath :: "ProbeDesc \<Rightarrow> string list" where
  "probePath p = (if length (desc_Path p) = 0 then [] else desc_Path p)"

definition propString :: "ProbedProp option \<Rightarrow> string" where
  "propString p = (case p of None \<Rightarrow> '''' | Some v \<Rightarrow> String v)"

text \<open>\<^verbatim>\<open>strings.Repeat\<close>; the count \<^verbatim>\<open>indent\<close> passes is never negative.\<close>

definition strings_Repeat :: "string \<Rightarrow> int \<Rightarrow> string" where
  "strings_Repeat s count = concat (replicate (nat count) s)"

definition indent :: "ProbeDesc option \<Rightarrow> string" where
  "indent p =
     (case p of
        None \<Rightarrow> strings_Repeat ''  '' 0
      | Some d \<Rightarrow>
          (let count = int (length (desc_Path d)) - 1
           in if count < 1 then '''' else strings_Repeat ''  '' count))"

definition buildMsg :: "string \<Rightarrow> string \<Rightarrow> string \<Rightarrow> string" where
  "buildMsg propString' category msg =
     (let buf = '''';
          buf = (if propString' \<noteq> '''' then buf @ '' '' else buf);
          buf = buf @ ''('';
          buf = buf @ category;
          buf = (if msg \<noteq> '''' then (buf @ '': '') @ msg else buf);
          buf = buf @ '')''
      in buf)"

subsection \<open>The human reporter\<close>

record cliReporter =
  cli_w :: Writer
  cli_colors :: Aurora
  cli_failed :: bool

definition printf :: "cliReporter \<Rightarrow> arg list \<Rightarrow> error option \<times> cliReporter" where
  "printf r args =
     (let (err, w') = io_WriteString (cli_w r) (aurora_Sprintf args)
      in (err, r\<lparr>cli_w := w'\<rparr>))"

definition cli_Pass :: "cliReporter \<Rightarrow> ProbeDesc \<Rightarrow> ProbedProp option \<Rightarrow> error option \<times> cliReporter" where
  "cli_Pass r p v =
     (let prop = propString v
      in printf r
           [Str (indent (Some p)),
            Val (BrightWhite (cli_colors r) (desc_DisplayName p @ '': '')),
            Val (Green (cli_colors r) prop),
            Str (buildMsg prop ''pass'' '''')])"

definition cli_Warn :: "cliReporter \<Rightarrow> ProbeDesc \<Rightarrow> ProbedProp option \<Rightarrow> string \<Rightarrow> error option \<times> cliReporter" where
  "cli_Warn r p v msg =
     (let prop = propString v
      in printf r
           [Str (indent (Some p)),
            Val (BrightWhite (cli_colors r) (desc_DisplayName p @ '': '')),
            Val (Yellow (cli_colors r) prop),
            Str (buildMsg prop ''warning'' msg)])"

definition cli_Reject :: "cliReporter \<Rightarrow> ProbeDesc \<Rightarrow> ProbedProp option \<Rightarrow> string \<Rightarrow> error option \<times> cliReporter" where
  "cli_Reject r p v msg =
     (let r = r\<lparr>cli_failed := True\<rparr>;
          prop = propString v
      in printf r
           [Str (indent (Some p)),
            Val (BrightWhite (cli_colors r) (desc_DisplayName p @ '': '')),
            Val (Bold_Value (Red (cli_colors r) prop)),
            Str (buildMsg prop ''rejected'' msg)])"

definition cli_Error :: "cliReporter \<Rightarrow> ProbeDesc \<Rightarrow> error option \<Rightarrow> error option \<times> cliReporter" where
  "cli_Error r p err =
     (let r = r\<lparr>cli_failed := True\<rparr>;
          errStr = ''error'';
          errStr = (case err of
                      None \<Rightarrow> errStr
                    | Some e' \<Rightarrow>
                        (let e = Error_text e'
                         in if e \<noteq> '''' then (errStr @ '': '') @ e else errStr))
      in printf r
           [Str (indent (Some p)),
            Val (BrightWhite (cli_colors r) (desc_DisplayName p @ '': '')),
            Val (Value_Red (Bold (cli_colors r) errStr))])"

subsection \<open>The structured-result collector\<close>

type_synonym ProbeCategory = string

definition ProbeCategoryPass :: ProbeCategory where
  "ProbeCategoryPass = ''pass''"

definition ProbeCategoryWarning :: ProbeCategory where
  "ProbeCategoryWarning = ''warning''"

definition ProbeCategoryRejected :: ProbeCategory where
  "ProbeCategoryRejected = ''rejected''"

definition ProbeCategoryError :: ProbeCategory where
  "ProbeCategoryError = ''error''"

text \<open>A result record; a field the source leaves out of the literal has its zero value.\<close>

record Probe =
  Path :: "string list"
  DisplayName :: string
  Prop :: string
  Message :: string
  Category :: ProbeCategory
  Error :: "error option"

record resultsCollector =
  rc_results :: "Probe list"
  rc_failed :: bool

definition rc_Pass :: "resultsCollector \<Rightarrow> ProbeDesc \<Rightarrow> ProbedProp option \<Rightarrow> error option \<times> resultsCollector" where
  "rc_Pass r p v =
     (let r = r\<lparr>rc_results := rc_results r @
                 [\<lparr>Path = probePath p, DisplayName = desc_DisplayName p, Prop = propString v,
                   Message = '''', Category = ProbeCategoryPass, Error = None\<rparr>]\<rparr>
      in (None, r))"

definition rc_Warn :: "resultsCollector \<Rightarrow> ProbeDesc \<Rightarrow> ProbedProp option \<Rightarrow> string \<Rightarrow> error option \<times> resultsCollector" where
  "rc_Warn r p v msg =
     (let r = r\<lparr>rc_results := rc_results r @
                 [\<lparr>Path = probePath p, DisplayName = desc_DisplayName p, Prop = propString v,
                   Message = msg, Category = ProbeCategoryWarning, Error = None\<rparr>]\<rparr>
      in (None, r))"

definition rc_Reject :: "resultsCollector \<Rightarrow> ProbeDesc \<Rightarrow> ProbedProp option \<Rightarrow> string \<Rightarrow> error option \<times> resultsCollector" where
  "rc_Reject r p v msg =
     (let r = r\<lparr>rc_failed := True\<rparr>;
          r = r\<lparr>rc_results := rc_results r @
                 [\<lparr>Path = probePath p, DisplayName = desc_DisplayName p, Prop = propString v,
                   Message = msg, Category = ProbeCategoryRejected, Error = None\<rparr>]\<rparr>
      in (None, r))"

definition rc_Error :: "resultsCollector \<Rightarrow> ProbeDesc \<Rightarrow> error option \<Rightarrow> error option \<times> resultsCollector" where
  "rc_Error r p err =
     (let r = r\<lparr>rc_failed := True\<rparr>;
          r = r\<lparr>rc_results := rc_results r @
                 [\<lparr>Path = probePath p, DisplayName = desc_DisplayName p, Prop = '''',
                   Message = '''', Category = ProbeCategoryError, Error = err\<rparr>]\<rparr>
      in (None, r))"

subsection \<open>The probe engine\<close>

text \<open>
  The engine sees a reporter through its four callbacks only. A callback as the engine
  issues it:
\<close>

datatype callback =
  OnPass ProbeDesc "ProbedProp option"
| OnWarn ProbeDesc "ProbedProp option" string
| OnReject ProbeDesc "ProbedProp option" string
| OnError ProbeDesc "error option"

text \<open>
  One run of \<^verbatim>\<open>Probe(reporter)\<close> either returns (nil or an error of the engine's own) or
  issues a callback and goes on according to what the callback returned. Every run of the
  engine is taken to return.
\<close>

datatype engine = Return "error option" | Call callback "error option \<Rightarrow> engine"

text \<open>
  The engine as the driver holds it: its behaviour, and a record of how often
  \<^verbatim>\<open>Probe\<close> has been invoked on it and of the callbacks it has issued, in order.
\<close>

record probes_Probe =
  behaviour :: engine
  invoked :: nat
  calls :: "callback list"

text \<open>The two implementations of the reporter interface.\<close>

fun cli_call :: "cliReporter \<Rightarrow> callback \<Rightarrow> error option \<times> cliReporter" where
  "cli_call r (OnPass p v) = cli_Pass r p v"
| "cli_call r (OnWarn p v msg) = cli_Warn r p v msg"
| "cli_call r (OnReject p v msg) = cli_Reject r p v msg"
| "cli_call r (OnError p err) = cli_Error r p err"

fun rc_call :: "resultsCollector \<Rightarrow> callback \<Rightarrow> error option \<times> resultsCollector" where
  "rc_call r (OnPass p v) = rc_Pass r p v"
| "rc_call r (OnWarn p v msg) = rc_Warn r p v msg"
| "rc_call r (OnReject p v msg) = rc_Reject r p v msg"
| "rc_call r (OnError p err) = rc_Error r p err"

primrec run :: "engine \<Rightarrow> ('r \<Rightarrow> callback \<Rightarrow> error option \<times> 'r) \<Rightarrow> 'r \<Rightarrow> callback list
                 \<Rightarrow> error option \<times> 'r \<times> callback list" where
  "run (Return e) call r log = (e, r, log)"
| "run (Call cb k) call r log =
     (let (err, r') = call r cb in run (k err) call r' (log @ [cb]))"

definition invoke_Probe :: "probes_Probe \<Rightarrow> ('r \<Rightarrow> callback \<Rightarrow> error option \<times> 'r) \<Rightarrow> 'r
                             \<Rightarrow> error option \<times> 'r \<times> probes_Probe" where
  "invoke_Probe probe call r =
     (let (err, r', log) = run (behaviour probe) call r (calls probe)
      in (err, r', probe\<lparr>invoked := invoked probe + 1, calls := log\<rparr>))"

subsection \<open>The driver\<close>

definition collectAndPrint ::
  "probes_Probe \<Rightarrow> Writer \<Rightarrow> (Probe list \<Rightarrow> error + string) \<Rightarrow> error option \<times> Writer \<times> probes_Probe" where
  "collectAndPrint probe out marshal =
     (let c = \<lparr>rc_results = [], rc_failed = False\<rparr>;
          (err, c, probe) = invoke_Probe probe rc_call c
      in if err \<noteq> None then (err, out, probe)
         else if rc_failed c then (Some (errors_New ''sysinfo failed''), out, probe)
         else (case marshal (rc_results c) of
                 Inl err \<Rightarrow> (Some err, out, probe)
               | Inr bytes \<Rightarrow> (let (err, out) = Write out bytes in (err, out, probe))))"

text \<open>
  What the command takes from its libraries: the escape sequences of aurora, the quoting
  that \<^verbatim>\<open>%q\<close> applies, and the two serializers.
\<close>

record libs =
  paint :: painter
  quote :: "string \<Rightarrow> string"
  json_MarshalIndent :: "Probe list \<Rightarrow> error + string"
  yaml_Marshal :: "Probe list \<Rightarrow> error + string"

text \<open>
  The function \<^verbatim>\<open>RunE\<close> of the command, on the probes that \<^verbatim>\<open>NewSysinfoProbes\<close> built,
  the command's output and the value of the \<^verbatim>\<open>--output\<close> flag.
\<close>

definition RunE :: "libs \<Rightarrow> probes_Probe \<Rightarrow> Writer \<Rightarrow> string \<Rightarrow> error option \<times> Writer \<times> probes_Probe" where
  "RunE lib probes out outputFormat =
     (if outputFormat = ''text'' then
        (let cli = \<lparr>cli_w = out, cli_colors = NewAurora (paint lib) (isTerminal out), cli_failed = False\<rparr>;
             (err, cli, probes) = invoke_Probe probes cli_call cli
         in if err \<noteq> None then (err, cli_w cli, probes)
            else if cli_failed cli then (Some (errors_New ''sysinfo failed''), cli_w cli, probes)
            else (None, cli_w cli, probes))
      else if outputFormat = ''json'' then collectAndPrint probes out (json_MarshalIndent lib)
      else if outputFormat = ''yaml'' then collectAndPrint probes out (yaml_Marshal lib)
      else (Some (GoError (''unknown output format: '' @ quote lib outputFormat)), out, probes))"

section \<open>Vocabulary of the properties\<close>

text \<open>A callback that reports a failure: a rejection or an error.\<close>

definition is_failure :: "callback \<Rightarrow> bool" where
  "is_failure cb = (case cb of OnReject p v msg \<Rightarrow> True | OnError p err \<Rightarrow> True | _ \<Rightarrow> False)"

text \<open>The category that belongs to each kind of callback.\<close>

definition category_of :: "callback \<Rightarrow> ProbeCategory" where
  "category_of cb =
     (case cb of
        OnPass p v \<Rightarrow> ProbeCategoryPass
      | OnWarn p v msg \<Rightarrow> ProbeCategoryWarning
      | OnReject p v msg \<Rightarrow> ProbeCategoryRejected
      | OnError p err \<Rightarrow> ProbeCategoryError)"

text \<open>A reporter after a sequence of callbacks, each applied to the state the last one left.\<close>

definition cli_after :: "cliReporter \<Rightarrow> callback list \<Rightarrow> cliReporter" where
  "cli_after r cbs = foldl (\<lambda>s cb. snd (cli_call s cb)) r cbs"

definition rc_after :: "resultsCollector \<Rightarrow> callback list \<Rightarrow> resultsCollector" where
  "rc_after r cbs = foldl (\<lambda>s cb. snd (rc_call s cb)) r cbs"

text \<open>The record a callback adds: the one it leaves in a collector that was empty.\<close>

definition record_of :: "callback \<Rightarrow> Probe" where
  "record_of cb = last (rc_results (snd (rc_call \<lparr>rc_results = [], rc_failed = False\<rparr> cb)))"

text \<open>How a palette shows a text in a colour once it is formatted.\<close>

definition shown :: "Aurora \<Rightarrow> Color \<Rightarrow> string \<Rightarrow> string" where
  "shown au c s = Format (Val (colorize au c s))"

text \<open>A reporter hands one line to its sink: one write, and the sink's answer to it.\<close>

definition emit :: "cliReporter \<Rightarrow> string \<Rightarrow> error option \<times> cliReporter" where
  "emit r line =
     (reply (cli_w r) (writes (cli_w r)) line,
      r\<lparr>cli_w := (cli_w r)\<lparr>writes := writes (cli_w r) @ [line]\<rparr>\<rparr>)"

text \<open>The line a callback hands to the sink: the data of the last write after it.\<close>

definition cli_line :: "cliReporter \<Rightarrow> callback \<Rightarrow> string" where
  "cli_line r cb = last (writes (cli_w (snd (cli_call r cb))))"

text \<open>A text that is one line: it ends in a newline and has no other newline.\<close>

definition single_line :: "string \<Rightarrow> bool" where
  "single_line s = (s \<noteq> [] \<and> last s = CHR ''\<newline>'' \<and> CHR ''\<newline>'' \<notin> set (butlast s))"

text \<open>The display name, the property string and the message of a callback; the message of
  an Error callback is the text of its error.\<close>

definition texts_of :: "callback \<Rightarrow> string list" where
  "texts_of cb =
     (case cb of
        OnPass p v \<Rightarrow> [desc_DisplayName p, propString v]
      | OnWarn p v msg \<Rightarrow> [desc_DisplayName p, propString v, msg]
      | OnReject p v msg \<Rightarrow> [desc_DisplayName p, propString v, msg]
      | OnError p err \<Rightarrow>
          [desc_DisplayName p, (case err of None \<Rightarrow> '''' | Some e \<Rightarrow> Error_text e)])"


text \<open>The reporter the text format starts with.\<close>

definition new_cliReporter :: "libs \<Rightarrow> Writer \<Rightarrow> cliReporter" where
  "new_cliReporter lib out =
     \<lparr>cli_w = out, cli_colors = NewAurora (paint lib) (isTerminal out), cli_failed = False\<rparr>"

section \<open>Concrete inputs\<close>

definition desc_os :: ProbeDesc where
  "desc_os = \<lparr>desc_Path = [''os''], desc_DisplayName = ''os''\<rparr>"

definition desc_nested :: ProbeDesc where
  "desc_nested = \<lparr>desc_Path = [''os'', ''linux'', ''kernel''], desc_DisplayName = ''kernel''\<rparr>"

definition pipe_ok :: Writer where
  "pipe_ok = \<lparr>writes = [], reply = (\<lambda>before b. None), isTerminal = False\<rparr>"

definition pipe_broken :: Writer where
  "pipe_broken = \<lparr>writes = [], reply = (\<lambda>before b. Some (GoError ''broken pipe'')), isTerminal = False\<rparr>"

definition tty_ok :: Writer where
  "tty_ok = \<lparr>writes = [], reply = (\<lambda>before b. None), isTerminal = True\<rparr>"

definition new_probes :: "engine \<Rightarrow> probes_Probe" where
  "new_probes eng = \<lparr>behaviour = eng, invoked = 0, calls = []\<rparr>"

text \<open>An engine that issues the given callbacks in order, returns the error of a callback
  as soon as one returns an error, and returns \<open>final\<close> after the last one.\<close>

primrec straight :: "callback list \<Rightarrow> error option \<Rightarrow> engine" where
  "straight [] final = Return final"
| "straight (cb # cbs) final =
     Call cb (\<lambda>err. case err of None \<Rightarrow> straight cbs final | Some e \<Rightarrow> Return (Some e))"

definition pass_os :: callback where
  "pass_os = OnPass desc_os (Some (ProbedProp ''linux''))"

definition warn_kernel :: callback where
  "warn_kernel = OnWarn desc_nested (Some (ProbedProp ''5.4'')) ''old kernel''"

definition reject_os :: callback where
  "reject_os = OnReject desc_os None ''unsupported''"

definition engine_failure :: error where
  "engine_failure = GoError ''probe engine failure''"

text \<open>Two stand-ins for a serializer: one lists the categories, one refuses.\<close>

definition marshal_categories :: "Probe list \<Rightarrow> error + string" where
  "marshal_categories rs = Inr (concat (map (\<lambda>r. Category r @ '';'') rs))"

definition marshal_refuses :: "Probe list \<Rightarrow> error + string" where
  "marshal_refuses rs = Inl (GoError ''unsupported value'')"

definition sample_libs :: libs where
  "sample_libs =
     \<lparr>paint = (\<lambda>c s. ''['' @ s @ '']''),
      quote = (\<lambda>s. [CHR 0x22] @ s @ [CHR 0x22]),
      json_MarshalIndent = marshal_categories,
      yaml_Marshal = marshal_categories\<rparr>"

section \<open>Properties\<close>

subsection \<open>Running the engine\<close>

lemma run_fold:
  "run eng call r log = (e, r', log') \<Longrightarrow>
     \<exists>cbs. log' = log @ cbs \<and> r' = foldl (\<lambda>s cb. snd (call s cb)) r cbs"
proof (induction eng arbitrary: r log)
  case (Return x)
  then show ?case by simp
next
  case (Call cb k)
  obtain err r1 where c: "call r cb = (err, r1)" by (cases "call r cb")
  with Call.prems have "run (k err) call r1 (log @ [cb]) = (e, r', log')" by simp
  from Call.IH[OF _ this] obtain cbs where
    "log' = (log @ [cb]) @ cbs" "r' = foldl (\<lambda>s cb. snd (call s cb)) r1 cbs" by blast
  with c have "log' = log @ (cb # cbs) \<and> r' = foldl (\<lambda>s cb. snd (call s cb)) r (cb # cbs)" by simp
  then show ?case by blast
qed

lemma invoke_Probe_fold:
  assumes "invoke_Probe probe call r = (e, r', probe')"
  shows "\<exists>cbs. calls probe' = calls probe @ cbs \<and> r' = foldl (\<lambda>s cb. snd (call s cb)) r cbs
           \<and> invoked probe' = invoked probe + 1 \<and> behaviour probe' = behaviour probe"
proof -
  obtain e1 r1 log1 where r: "run (behaviour probe) call r (calls probe) = (e1, r1, log1)"
    by (cases "run (behaviour probe) call r (calls probe)")
  with assms have "e = e1" "r' = r1" "probe' = probe\<lparr>invoked := invoked probe + 1, calls := log1\<rparr>"
    by (simp_all add: invoke_Probe_def)
  with run_fold[OF r] show ?thesis by auto
qed

subsection \<open>Indentation\<close>

lemma concat_replicate_two_spaces: "concat (replicate n ''  '') = replicate (2 * n) CHR '' ''"
  by (induction n) simp_all

lemma indent_nil: "indent None = ''''"
  by (simp add: indent_def strings_Repeat_def)

text \<open>
  C5. The indentation of a descriptor depends on the length of its path only: it is empty
  for a path of length 0 or 1, and \<open>2 * (N - 1)\<close> spaces for a path of length \<open>N > 1\<close>.
\<close>

theorem indent_by_path_length:
  "indent (Some d) =
     (if length (desc_Path d) \<le> 1 then ''''
      else replicate (2 * (length (desc_Path d) - 1)) CHR '' '')"
  by (auto simp: indent_def strings_Repeat_def Let_def concat_replicate_two_spaces nat_diff_distrib')

theorem indent_by_path_length_witness:
  "length (desc_Path desc_nested) = 3 \<and> indent (Some desc_nested) = ''    ''
   \<and> length (desc_Path desc_os) = 1 \<and> indent (Some desc_os) = ''''"
  using indent_by_path_length[of desc_nested] indent_by_path_length[of desc_os]
  by (simp add: desc_nested_def desc_os_def eval_nat_numeral)

subsection \<open>The failure flag\<close>

lemma rc_call_nil: "fst (rc_call r cb) = None"
  by (cases cb) (simp_all add: rc_Pass_def rc_Warn_def rc_Reject_def rc_Error_def)

lemma rc_call_failed: "rc_failed (snd (rc_call r cb)) = (rc_failed r \<or> is_failure cb)"
  by (cases cb) (simp_all add: rc_Pass_def rc_Warn_def rc_Reject_def rc_Error_def is_failure_def)

lemma cli_call_failed: "cli_failed (snd (cli_call r cb)) = (cli_failed r \<or> is_failure cb)"
  by (cases cb) (simp_all add: cli_Pass_def cli_Warn_def cli_Reject_def cli_Error_def is_failure_def
      printf_def io_WriteString_def Write_def Let_def split: prod.splits)

lemma rc_after_failed: "rc_failed (rc_after r cbs) = (rc_failed r \<or> (\<exists>cb\<in>set cbs. is_failure cb))"
  unfolding rc_after_def by (induction cbs arbitrary: r) (auto simp: rc_call_failed)

lemma cli_after_failed: "cli_failed (cli_after r cbs) = (cli_failed r \<or> (\<exists>cb\<in>set cbs. is_failure cb))"
  unfolding cli_after_def by (induction cbs arbitrary: r) (auto simp: cli_call_failed)

subsection \<open>The collector's records\<close>

lemma rc_call_results: "rc_results (snd (rc_call r cb)) = rc_results r @ [record_of cb]"
  by (cases cb) (simp_all add: record_of_def rc_Pass_def rc_Warn_def rc_Reject_def rc_Error_def)

lemma rc_after_results: "rc_results (rc_after r cbs) = rc_results r @ map record_of cbs"
  unfolding rc_after_def by (induction cbs arbitrary: r) (simp_all add: rc_call_results)

lemma Category_record_of: "Category (record_of cb) = category_of cb"
  by (cases cb) (simp_all add: record_of_def category_of_def rc_Pass_def rc_Warn_def rc_Reject_def
      rc_Error_def)

subsection \<open>The structured path\<close>

lemma collectAndPrint_unfold:
  assumes "invoke_Probe probe rc_call \<lparr>rc_results = [], rc_failed = False\<rparr> = (err, c, probe')"
  shows "collectAndPrint probe out marshal =
     (if err \<noteq> None then (err, out, probe')
      else if rc_failed c then (Some (errors_New ''sysinfo failed''), out, probe')
      else (case marshal (rc_results c) of
              Inl e \<Rightarrow> (Some e, out, probe')
            | Inr bytes \<Rightarrow> (reply out (writes out) bytes, out\<lparr>writes := writes out @ [bytes]\<rparr>, probe')))"
  using assms by (simp add: collectAndPrint_def Write_def split: sum.splits)

lemma collector_after_Probe:
  assumes "invoke_Probe probe rc_call c = (err, c', probe')"
    and "calls probe' = calls probe @ cbs"
  shows "c' = rc_after c cbs"
  using invoke_Probe_fold[OF assms(1)] assms(2) by (auto simp: rc_after_def)

lemma straight_rc:
  "run (straight cbs final) rc_call r log = (final, rc_after r cbs, log @ cbs)"
proof (induction cbs arbitrary: r log)
  case Nil
  then show ?case by (simp add: rc_after_def)
next
  case (Cons cb cbs)
  obtain r1 where "rc_call r cb = (None, r1)"
    using rc_call_nil[of r cb] by (cases "rc_call r cb") simp
  with Cons show ?case by (simp add: rc_after_def)
qed

lemma invoke_straight_rc:
  "invoke_Probe (new_probes (straight cbs final)) rc_call r =
     (final, rc_after r cbs, \<lparr>behaviour = straight cbs final, invoked = 1, calls = cbs\<rparr>)"
  by (simp add: invoke_Probe_def new_probes_def straight_rc)

lemma collectAndPrint_straight:
  "collectAndPrint (new_probes (straight cbs final)) out marshal =
     (if final \<noteq> None then
        (final, out, \<lparr>behaviour = straight cbs final, invoked = 1, calls = cbs\<rparr>)
      else if \<exists>cb\<in>set cbs. is_failure cb then
        (Some (errors_New ''sysinfo failed''), out,
         \<lparr>behaviour = straight cbs final, invoked = 1, calls = cbs\<rparr>)
      else (case marshal (map record_of cbs) of
              Inl e \<Rightarrow> (Some e, out, \<lparr>behaviour = straight cbs final, invoked = 1, calls = cbs\<rparr>)
            | Inr bytes \<Rightarrow>
                (reply out (writes out) bytes, out\<lparr>writes := writes out @ [bytes]\<rparr>,
                 \<lparr>behaviour = straight cbs final, invoked = 1, calls = cbs\<rparr>)))"
  by (simp add: collectAndPrint_unfold[OF invoke_straight_rc] rc_after_failed rc_after_results)

text \<open>
  C1 (as amended). When the callbacks delivered to the collector contain at least one
  Reject or Error callback, \<^verbatim>\<open>collectAndPrint\<close> writes nothing to the sink; it returns the
  error "sysinfo failed" when the engine's \<^verbatim>\<open>Probe\<close> returned nil, and the engine's own
  error when it returned one.
\<close>

theorem collectAndPrint_after_failure:
  assumes "invoke_Probe probe rc_call \<lparr>rc_results = [], rc_failed = False\<rparr> = (err, c, probe')"
    and "calls probe' = calls probe @ cbs"
    and "\<exists>cb\<in>set cbs. is_failure cb"
  shows "collectAndPrint probe out marshal =
           (if err = None then Some (errors_New ''sysinfo failed'') else err, out, probe')"
proof -
  have "rc_failed c"
    using collector_after_Probe[OF assms(1,2)] assms(3) by (simp add: rc_after_failed)
  then show ?thesis by (simp add: collectAndPrint_unfold[OF assms(1)])
qed

theorem collectAndPrint_after_failure_witness:
  "invoke_Probe (new_probes (straight [pass_os, reject_os] None)) rc_call
       \<lparr>rc_results = [], rc_failed = False\<rparr>
     = (None, rc_after \<lparr>rc_results = [], rc_failed = False\<rparr> [pass_os, reject_os],
        \<lparr>behaviour = straight [pass_os, reject_os] None, invoked = 1, calls = [pass_os, reject_os]\<rparr>)
   \<and> is_failure reject_os
   \<and> collectAndPrint (new_probes (straight [pass_os, reject_os] None)) pipe_ok marshal_categories
     = (Some (errors_New ''sysinfo failed''), pipe_ok,
        \<lparr>behaviour = straight [pass_os, reject_os] None, invoked = 1, calls = [pass_os, reject_os]\<rparr>)"
proof -
  let ?probe = "new_probes (straight [pass_os, reject_os] None)"
  let ?probe' = "\<lparr>behaviour = straight [pass_os, reject_os] None, invoked = 1,
                   calls = [pass_os, reject_os]\<rparr>"
  have h1: "invoke_Probe ?probe rc_call \<lparr>rc_results = [], rc_failed = False\<rparr>
              = (None, rc_after \<lparr>rc_results = [], rc_failed = False\<rparr> [pass_os, reject_os], ?probe')"
    by (rule invoke_straight_rc)
  have h2: "calls ?probe' = calls ?probe @ [pass_os, reject_os]"
    by (simp add: new_probes_def)
  have h3: "is_failure reject_os"
    by (simp add: is_failure_def reject_os_def)
  then have h4: "\<exists>cb\<in>set [pass_os, reject_os]. is_failure cb" by simp
  show ?thesis
    using collectAndPrint_after_failure[where cbs = "[pass_os, reject_os]" and out = pipe_ok
        and marshal = marshal_categories, OF h1 h2 h4] h1 h3
    by (simp del: straight.simps)
qed

text \<open>
  Without the condition on what the engine returned the statement fails: an engine that
  delivers a Reject callback and then returns an error of its own makes the path return
  that error.
\<close>

theorem collectAndPrint_engine_error_counterexample:
  "calls (snd (snd (collectAndPrint (new_probes (straight [reject_os] (Some engine_failure)))
                      pipe_ok marshal_categories))) = [reject_os]
   \<and> is_failure reject_os
   \<and> fst (collectAndPrint (new_probes (straight [reject_os] (Some engine_failure)))
            pipe_ok marshal_categories) = Some engine_failure
   \<and> Some engine_failure \<noteq> Some (errors_New ''sysinfo failed'')"
  by (simp add: collectAndPrint_straight is_failure_def reject_os_def engine_failure_def
      errors_New_def del: straight.simps)

text \<open>
  C2 (as amended). When the callbacks delivered to the collector contain no Reject and no
  Error callback, the engine's \<^verbatim>\<open>Probe\<close> returned nil and the serializer accepts the
  records, \<^verbatim>\<open>collectAndPrint\<close> makes exactly one write, of the serialized record sequence,
  and returns what the sink answers to that write (success when the sink accepts it). The
  record sequence has one record for each callback, in the order of the callbacks, and the
  category of each record is the category of its callback.
\<close>

theorem collectAndPrint_without_failure:
  assumes "invoke_Probe probe rc_call \<lparr>rc_results = [], rc_failed = False\<rparr> = (None, c, probe')"
    and "calls probe' = calls probe @ cbs"
    and "\<forall>cb\<in>set cbs. \<not> is_failure cb"
    and "marshal (map record_of cbs) = Inr bytes"
  shows "collectAndPrint probe out marshal =
           (reply out (writes out) bytes, out\<lparr>writes := writes out @ [bytes]\<rparr>, probe')
         \<and> rc_results c = map record_of cbs
         \<and> map Category (rc_results c) = map category_of cbs"
proof -
  have c: "c = rc_after \<lparr>rc_results = [], rc_failed = False\<rparr> cbs"
    by (rule collector_after_Probe[OF assms(1,2)])
  then have ok: "\<not> rc_failed c"
    using assms(3) by (simp add: rc_after_failed)
  have rs: "rc_results c = map record_of cbs"
    using c by (simp add: rc_after_results)
  have cats: "map Category (rc_results c) = map category_of cbs"
    by (simp add: rs Category_record_of)
  have "collectAndPrint probe out marshal =
          (reply out (writes out) bytes, out\<lparr>writes := writes out @ [bytes]\<rparr>, probe')"
    using ok assms(4) by (simp add: collectAndPrint_unfold[OF assms(1)] rs)
  with rs cats show ?thesis by simp
qed

theorem collectAndPrint_without_failure_witness:
  "invoke_Probe (new_probes (straight [pass_os, warn_kernel] None)) rc_call
       \<lparr>rc_results = [], rc_failed = False\<rparr>
     = (None, rc_after \<lparr>rc_results = [], rc_failed = False\<rparr> [pass_os, warn_kernel],
        \<lparr>behaviour = straight [pass_os, warn_kernel] None, invoked = 1, calls = [pass_os, warn_kernel]\<rparr>)
   \<and> \<not> is_failure pass_os \<and> \<not> is_failure warn_kernel
   \<and> marshal_categories (map record_of [pass_os, warn_kernel]) = Inr ''pass;warning;''
   \<and> collectAndPrint (new_probes (straight [pass_os, warn_kernel] None)) pipe_ok marshal_categories
     = (None, pipe_ok\<lparr>writes := [''pass;warning;'']\<rparr>,
        \<lparr>behaviour = straight [pass_os, warn_kernel] None, invoked = 1, calls = [pass_os, warn_kernel]\<rparr>)
   \<and> map Category (rc_results (rc_after \<lparr>rc_results = [], rc_failed = False\<rparr> [pass_os, warn_kernel]))
     = [''pass'', ''warning'']"
proof -
  let ?probe = "new_probes (straight [pass_os, warn_kernel] None)"
  let ?probe' = "\<lparr>behaviour = straight [pass_os, warn_kernel] None, invoked = 1,
                   calls = [pass_os, warn_kernel]\<rparr>"
  have h1: "invoke_Probe ?probe rc_call \<lparr>rc_results = [], rc_failed = False\<rparr>
              = (None, rc_after \<lparr>rc_results = [], rc_failed = False\<rparr> [pass_os, warn_kernel], ?probe')"
    by (rule invoke_straight_rc)
  have h2: "calls ?probe' = calls ?probe @ [pass_os, warn_kernel]"
    by (simp add: new_probes_def)
  have h3: "\<not> is_failure pass_os" "\<not> is_failure warn_kernel"
    by (simp_all add: is_failure_def pass_os_def warn_kernel_def)
  then have h4: "\<forall>cb\<in>set [pass_os, warn_kernel]. \<not> is_failure cb" by simp
  have h5: "marshal_categories (map record_of [pass_os, warn_kernel]) = Inr ''pass;warning;''"
    by (simp add: marshal_categories_def Category_record_of category_of_def pass_os_def
        warn_kernel_def ProbeCategoryPass_def ProbeCategoryWarning_def)
  have cats: "map category_of [pass_os, warn_kernel] = [''pass'', ''warning'']"
    by (simp add: category_of_def pass_os_def warn_kernel_def ProbeCategoryPass_def
        ProbeCategoryWarning_def)
  show ?thesis
    using collectAndPrint_without_failure[where cbs = "[pass_os, warn_kernel]" and out = pipe_ok
        and marshal = marshal_categories, OF h1 h2 h4 h5] h1 h3 h5 cats
    by (simp add: pipe_ok_def Category_record_of del: straight.simps)
qed

text \<open>
  Without these conditions the path need not succeed although no callback was a Reject or
  an Error: the sink may refuse the write, the engine may return an error of its own, and
  the serializer may return an error.
\<close>

theorem collectAndPrint_not_always_success_counterexample:
  "\<not> is_failure pass_os \<and> \<not> is_failure warn_kernel
   \<and> calls (snd (snd (collectAndPrint (new_probes (straight [pass_os, warn_kernel] None))
                        pipe_broken marshal_categories))) = [pass_os, warn_kernel]
   \<and> fst (collectAndPrint (new_probes (straight [pass_os, warn_kernel] None))
            pipe_broken marshal_categories) = Some (GoError ''broken pipe'')
   \<and> collectAndPrint (new_probes (straight [pass_os, warn_kernel] (Some engine_failure)))
       pipe_ok marshal_categories
     = (Some engine_failure, pipe_ok,
        \<lparr>behaviour = straight [pass_os, warn_kernel] (Some engine_failure), invoked = 1,
         calls = [pass_os, warn_kernel]\<rparr>)
   \<and> collectAndPrint (new_probes (straight [pass_os, warn_kernel] None)) pipe_ok marshal_refuses
     = (Some (GoError ''unsupported value''), pipe_ok,
        \<lparr>behaviour = straight [pass_os, warn_kernel] None, invoked = 1,
         calls = [pass_os, warn_kernel]\<rparr>)"
  by (simp add: collectAndPrint_straight is_failure_def pass_os_def warn_kernel_def
      marshal_categories_def marshal_refuses_def pipe_broken_def engine_failure_def
      del: straight.simps)

subsection \<open>The lines of the human reporter\<close>

lemma shown_clear: "shown auroraClear c s = s"
  by (simp add: shown_def)

lemma shown_color: "shown (aurora pt) c s = pt c s"
  by (simp add: shown_def)

lemma Format_BrightWhite: "Format (Val (BrightWhite au s)) = shown au (fgColor BrightWhiteFg) s"
  by (simp add: BrightWhite_def shown_def)

lemma Format_Green: "Format (Val (Green au s)) = shown au (fgColor GreenFg) s"
  by (simp add: Green_def shown_def)

lemma Format_Yellow: "Format (Val (Yellow au s)) = shown au (fgColor YellowFg) s"
  by (simp add: Yellow_def shown_def)

lemma Format_Bold_Red: "Format (Val (Bold_Value (Red au s))) = shown au (boldFgColor RedFg) s"
  by (cases au) (simp_all add: Red_def shown_def fgColor_def boldFgColor_def)

lemma Format_Red_Bold: "Format (Val (Value_Red (Bold au s))) = shown au (boldFgColor RedFg) s"
  by (cases au) (simp_all add: Bold_def shown_def boldFgColor_def)

lemmas Format_colours =
  Format_BrightWhite Format_Green Format_Yellow Format_Bold_Red Format_Red_Bold

lemma buildMsg_eq:
  "buildMsg prop category msg =
     (if prop \<noteq> '''' then '' '' else '''') @ ''('' @ category
       @ (if msg \<noteq> '''' then '': '' @ msg else '''') @ '')''"
  by (simp add: buildMsg_def)

lemma printf_emit: "printf r args = emit r (aurora_Sprintf args)"
  by (simp add: printf_def emit_def io_WriteString_def Write_def)

lemma cli_Pass_emit:
  "cli_Pass r p v =
     emit r (indent (Some p) @ shown (cli_colors r) (fgColor BrightWhiteFg) (desc_DisplayName p @ '': '')
               @ shown (cli_colors r) (fgColor GreenFg) (propString v)
               @ buildMsg (propString v) ''pass'' '''' @ ''\<newline>'')"
  by (simp add: cli_Pass_def printf_emit aurora_Sprintf_def Format_colours Let_def)

lemma cli_Warn_emit:
  "cli_Warn r p v msg =
     emit r (indent (Some p) @ shown (cli_colors r) (fgColor BrightWhiteFg) (desc_DisplayName p @ '': '')
               @ shown (cli_colors r) (fgColor YellowFg) (propString v)
               @ buildMsg (propString v) ''warning'' msg @ ''\<newline>'')"
  by (simp add: cli_Warn_def printf_emit aurora_Sprintf_def Format_colours Let_def)

lemma cli_Reject_emit:
  "cli_Reject r p v msg =
     emit (r\<lparr>cli_failed := True\<rparr>)
          (indent (Some p) @ shown (cli_colors r) (fgColor BrightWhiteFg) (desc_DisplayName p @ '': '')
             @ shown (cli_colors r) (boldFgColor RedFg) (propString v)
             @ buildMsg (propString v) ''rejected'' msg @ ''\<newline>'')"
  by (simp add: cli_Reject_def printf_emit aurora_Sprintf_def Format_colours Let_def)

lemma cli_Error_emit:
  "cli_Error r p err =
     emit (r\<lparr>cli_failed := True\<rparr>)
          (indent (Some p) @ shown (cli_colors r) (fgColor BrightWhiteFg) (desc_DisplayName p @ '': '')
             @ shown (cli_colors r) (boldFgColor RedFg)
                 (case err of
                    None \<Rightarrow> ''error''
                  | Some e \<Rightarrow> if Error_text e \<noteq> '''' then ''error: '' @ Error_text e else ''error'')
             @ ''\<newline>'')"
  by (cases err) (simp_all add: cli_Error_def printf_emit aurora_Sprintf_def Format_colours Let_def)

lemma writes_emit: "writes (cli_w (snd (emit r line))) = writes (cli_w r) @ [line]"
  by (simp add: emit_def)

lemma fst_emit: "fst (emit r line) = reply (cli_w r) (writes (cli_w r)) line"
  by (simp add: emit_def)

lemmas cli_emit = cli_Pass_emit cli_Warn_emit cli_Reject_emit cli_Error_emit

lemma cli_call_one_write:
  "writes (cli_w (snd (cli_call r cb))) = writes (cli_w r) @ [cli_line r cb]
   \<and> fst (cli_call r cb) = reply (cli_w r) (writes (cli_w r)) (cli_line r cb)
   \<and> reply (cli_w (snd (cli_call r cb))) = reply (cli_w r)
   \<and> isTerminal (cli_w (snd (cli_call r cb))) = isTerminal (cli_w r)
   \<and> cli_colors (snd (cli_call r cb)) = cli_colors r"
  by (cases cb) (simp_all add: cli_line_def cli_emit emit_def)

lemma cli_after_sink:
  "reply (cli_w (cli_after r cbs)) = reply (cli_w r) \<and> cli_colors (cli_after r cbs) = cli_colors r"
  unfolding cli_after_def by (induction cbs arbitrary: r) (simp_all add: cli_call_one_write)

lemma straight_cli:
  assumes "\<And>before b. reply (cli_w r) before b = None"
  shows "run (straight cbs final) cli_call r log = (final, cli_after r cbs, log @ cbs)"
  using assms
proof (induction cbs arbitrary: r log)
  case Nil
  then show ?case by (simp add: cli_after_def)
next
  case (Cons cb cbs)
  obtain err r1 where c: "cli_call r cb = (err, r1)" by (cases "cli_call r cb")
  have "err = None" "reply (cli_w r1) = reply (cli_w r)"
    using cli_call_one_write[of r cb] c Cons.prems by simp_all
  with Cons c show ?case by (simp add: cli_after_def)
qed

lemma invoke_straight_cli:
  assumes "\<And>before b. reply (cli_w r) before b = None"
  shows "invoke_Probe (new_probes (straight cbs final)) cli_call r =
           (final, cli_after r cbs, \<lparr>behaviour = straight cbs final, invoked = 1, calls = cbs\<rparr>)"
  by (simp add: invoke_Probe_def new_probes_def straight_cli[OF assms])

lemma reporter_after_Probe:
  assumes "invoke_Probe probe cli_call r = (err, r', probe')"
    and "calls probe' = calls probe @ cbs"
  shows "r' = cli_after r cbs"
  using invoke_Probe_fold[OF assms(1)] assms(2) by (auto simp: cli_after_def)

lemma RunE_text_unfold:
  assumes "invoke_Probe probe cli_call (new_cliReporter lib out) = (err, cli, probe')"
  shows "RunE lib probe out ''text'' =
     (if err \<noteq> None then err
      else if cli_failed cli then Some (errors_New ''sysinfo failed'') else None,
      cli_w cli, probe')"
  using assms by (simp add: RunE_def new_cliReporter_def)

subsection \<open>The failure flag and the outcome\<close>

text \<open>
  C3 (as amended). For the human reporter and for the collector, both started with the
  flag unset, the flag is set after the callbacks of a run exactly when one of them was a
  Reject or an Error callback: a Pass or a Warn callback leaves the flag as it is, a Reject
  or an Error callback sets it. When the engine's \<^verbatim>\<open>Probe\<close> has returned nil, the flag
  decides the outcome: "sysinfo failed" when it is set, and otherwise success for the text
  format and serialization for the structured formats. When \<^verbatim>\<open>Probe\<close> has returned an
  error, that error is the outcome, whatever the flag.
\<close>

theorem failed_flag_tracks_failures:
  assumes "invoke_Probe probe cli_call (new_cliReporter lib out) = (err, cli, probe')"
    and "calls probe' = calls probe @ cbs"
    and "invoke_Probe probe2 rc_call \<lparr>rc_results = [], rc_failed = False\<rparr> = (err2, c, probe2')"
    and "calls probe2' = calls probe2 @ cbs2"
  shows "(cli_failed cli \<longleftrightarrow> (\<exists>cb\<in>set cbs. is_failure cb))
       \<and> (rc_failed c \<longleftrightarrow> (\<exists>cb\<in>set cbs2. is_failure cb))
       \<and> (cli_failed (cli_after r cbs3) \<longleftrightarrow> cli_failed r \<or> (\<exists>cb\<in>set cbs3. is_failure cb))
       \<and> (rc_failed (rc_after r2 cbs3) \<longleftrightarrow> rc_failed r2 \<or> (\<exists>cb\<in>set cbs3. is_failure cb))
       \<and> cli_failed (snd (cli_Pass r p v)) = cli_failed r
       \<and> cli_failed (snd (cli_Warn r p v msg)) = cli_failed r
       \<and> cli_failed (snd (cli_Reject r p v msg))
       \<and> cli_failed (snd (cli_Error r p e))
       \<and> rc_failed (snd (rc_Pass r2 p v)) = rc_failed r2
       \<and> rc_failed (snd (rc_Warn r2 p v msg)) = rc_failed r2
       \<and> rc_failed (snd (rc_Reject r2 p v msg))
       \<and> rc_failed (snd (rc_Error r2 p e))
       \<and> fst (RunE lib probe out ''text'') =
           (if err \<noteq> None then err
            else if cli_failed cli then Some (errors_New ''sysinfo failed'') else None)
       \<and> fst (collectAndPrint probe2 out2 marshal) =
           (if err2 \<noteq> None then err2
            else if rc_failed c then Some (errors_New ''sysinfo failed'')
            else (case marshal (rc_results c) of
                    Inl e' \<Rightarrow> Some e'
                  | Inr bytes \<Rightarrow> reply out2 (writes out2) bytes))"
proof -
  have "cli = cli_after (new_cliReporter lib out) cbs"
    by (rule reporter_after_Probe[OF assms(1,2)])
  then have a: "cli_failed cli \<longleftrightarrow> (\<exists>cb\<in>set cbs. is_failure cb)"
    by (simp add: cli_after_failed new_cliReporter_def)
  have "c = rc_after \<lparr>rc_results = [], rc_failed = False\<rparr> cbs2"
    by (rule collector_after_Probe[OF assms(3,4)])
  then have b: "rc_failed c \<longleftrightarrow> (\<exists>cb\<in>set cbs2. is_failure cb)"
    by (simp add: rc_after_failed)
  have c1: "cli_failed (snd (cli_Pass r p v)) = cli_failed r"
    using cli_call_failed[of r "OnPass p v"] by (simp add: is_failure_def)
  have c2: "cli_failed (snd (cli_Warn r p v msg)) = cli_failed r"
    using cli_call_failed[of r "OnWarn p v msg"] by (simp add: is_failure_def)
  have c3: "cli_failed (snd (cli_Reject r p v msg))"
    using cli_call_failed[of r "OnReject p v msg"] by (simp add: is_failure_def)
  have c4: "cli_failed (snd (cli_Error r p e))"
    using cli_call_failed[of r "OnError p e"] by (simp add: is_failure_def)
  have d1: "rc_failed (snd (rc_Pass r2 p v)) = rc_failed r2"
    using rc_call_failed[of r2 "OnPass p v"] by (simp add: is_failure_def)
  have d2: "rc_failed (snd (rc_Warn r2 p v msg)) = rc_failed r2"
    using rc_call_failed[of r2 "OnWarn p v msg"] by (simp add: is_failure_def)
  have d3: "rc_failed (snd (rc_Reject r2 p v msg))"
    using rc_call_failed[of r2 "OnReject p v msg"] by (simp add: is_failure_def)
  have d4: "rc_failed (snd (rc_Error r2 p e))"
    using rc_call_failed[of r2 "OnError p e"] by (simp add: is_failure_def)
  have t: "fst (RunE lib probe out ''text'') =
           (if err \<noteq> None then err
            else if cli_failed cli then Some (errors_New ''sysinfo failed'') else None)"
    by (simp add: RunE_text_unfold[OF assms(1)])
  have s: "fst (collectAndPrint probe2 out2 marshal) =
           (if err2 \<noteq> None then err2
            else if rc_failed c then Some (errors_New ''sysinfo failed'')
            else (case marshal (rc_results c) of
                    Inl e' \<Rightarrow> Some e'
                  | Inr bytes \<Rightarrow> reply out2 (writes out2) bytes))"
    by (simp add: collectAndPrint_unfold[OF assms(3)] split: sum.splits)
  have g1: "cli_failed (cli_after r cbs3) \<longleftrightarrow> cli_failed r \<or> (\<exists>cb\<in>set cbs3. is_failure cb)"
    by (rule cli_after_failed)
  have g2: "rc_failed (rc_after r2 cbs3) \<longleftrightarrow> rc_failed r2 \<or> (\<exists>cb\<in>set cbs3. is_failure cb)"
    by (rule rc_after_failed)
  from a b g1 g2 c1 c2 c3 c4 d1 d2 d3 d4 t s show ?thesis by blast
qed

theorem failed_flag_tracks_failures_witness:
  "invoke_Probe (new_probes (straight [pass_os, reject_os] None)) cli_call
       (new_cliReporter sample_libs pipe_ok)
     = (None, cli_after (new_cliReporter sample_libs pipe_ok) [pass_os, reject_os],
        \<lparr>behaviour = straight [pass_os, reject_os] None, invoked = 1, calls = [pass_os, reject_os]\<rparr>)
   \<and> invoke_Probe (new_probes (straight [pass_os, warn_kernel] None)) rc_call
       \<lparr>rc_results = [], rc_failed = False\<rparr>
     = (None, rc_after \<lparr>rc_results = [], rc_failed = False\<rparr> [pass_os, warn_kernel],
        \<lparr>behaviour = straight [pass_os, warn_kernel] None, invoked = 1, calls = [pass_os, warn_kernel]\<rparr>)
   \<and> is_failure reject_os \<and> \<not> is_failure pass_os \<and> \<not> is_failure warn_kernel
   \<and> cli_failed (cli_after (new_cliReporter sample_libs pipe_ok) [pass_os, reject_os])
   \<and> \<not> rc_failed (rc_after \<lparr>rc_results = [], rc_failed = False\<rparr> [pass_os, warn_kernel])
   \<and> fst (RunE sample_libs (new_probes (straight [pass_os, reject_os] None)) pipe_ok ''text'')
     = Some (errors_New ''sysinfo failed'')"
proof -
  let ?p1 = "new_probes (straight [pass_os, reject_os] None)"
  let ?p1' = "\<lparr>behaviour = straight [pass_os, reject_os] None, invoked = 1,
                calls = [pass_os, reject_os]\<rparr>"
  let ?p2 = "new_probes (straight [pass_os, warn_kernel] None)"
  let ?p2' = "\<lparr>behaviour = straight [pass_os, warn_kernel] None, invoked = 1,
                calls = [pass_os, warn_kernel]\<rparr>"
  have quiet: "\<And>before b. reply (cli_w (new_cliReporter sample_libs pipe_ok)) before b = None"
    by (simp add: new_cliReporter_def pipe_ok_def)
  have h1: "invoke_Probe ?p1 cli_call (new_cliReporter sample_libs pipe_ok)
              = (None, cli_after (new_cliReporter sample_libs pipe_ok) [pass_os, reject_os], ?p1')"
    by (rule invoke_straight_cli[OF quiet])
  have h2: "calls ?p1' = calls ?p1 @ [pass_os, reject_os]"
    by (simp add: new_probes_def)
  have h3: "invoke_Probe ?p2 rc_call \<lparr>rc_results = [], rc_failed = False\<rparr>
              = (None, rc_after \<lparr>rc_results = [], rc_failed = False\<rparr> [pass_os, warn_kernel], ?p2')"
    by (rule invoke_straight_rc)
  have h4: "calls ?p2' = calls ?p2 @ [pass_os, warn_kernel]"
    by (simp add: new_probes_def)
  have f: "is_failure reject_os" "\<not> is_failure pass_os" "\<not> is_failure warn_kernel"
    by (simp_all add: is_failure_def reject_os_def pass_os_def warn_kernel_def)
  note t = failed_flag_tracks_failures[where cbs = "[pass_os, reject_os]"
      and ?cbs2.0 = "[pass_os, warn_kernel]", OF h1 h2 h3 h4]
  show ?thesis
    using t h1 h3 f by (simp del: straight.simps)
qed

text \<open>
  The flag alone does not decide the outcome: an engine that delivers a Reject callback and
  then returns an error of its own leaves the flag set, and the outcome is the engine's
  error on both paths; so it is when the sink refuses the line of the Reject callback and
  the engine returns that error.
\<close>

theorem failed_flag_engine_error_counterexample:
  "cli_failed (fst (snd (invoke_Probe (new_probes (straight [reject_os] (Some engine_failure)))
                           cli_call (new_cliReporter sample_libs pipe_ok))))
   \<and> fst (RunE sample_libs (new_probes (straight [reject_os] (Some engine_failure))) pipe_ok ''text'')
       = Some engine_failure
   \<and> rc_failed (fst (snd (invoke_Probe (new_probes (straight [reject_os] (Some engine_failure)))
                            rc_call \<lparr>rc_results = [], rc_failed = False\<rparr>)))
   \<and> fst (collectAndPrint (new_probes (straight [reject_os] (Some engine_failure)))
            pipe_ok marshal_categories) = Some engine_failure
   \<and> Some engine_failure \<noteq> Some (errors_New ''sysinfo failed'')
   \<and> cli_failed (fst (snd (invoke_Probe (new_probes (straight [reject_os] None))
                             cli_call (new_cliReporter sample_libs pipe_broken))))
   \<and> fst (RunE sample_libs (new_probes (straight [reject_os] None)) pipe_broken ''text'')
       = Some (GoError ''broken pipe'')
   \<and> Some (GoError ''broken pipe'') \<noteq> Some (errors_New ''sysinfo failed'')"
proof -
  let ?r = "new_cliReporter sample_libs pipe_ok"
  let ?b = "new_cliReporter sample_libs pipe_broken"
  have f: "is_failure reject_os"
    by (simp add: is_failure_def reject_os_def)
  have quiet: "\<And>before b. reply (cli_w ?r) before b = None"
    by (simp add: new_cliReporter_def pipe_ok_def)
  note i1 = invoke_straight_cli[OF quiet, of "[reject_os]" "Some engine_failure"]
  have a1: "cli_failed (fst (snd (invoke_Probe (new_probes (straight [reject_os] (Some engine_failure)))
                                    cli_call ?r)))"
    using f by (simp add: i1 cli_after_failed del: straight.simps)
  have a2: "fst (RunE sample_libs (new_probes (straight [reject_os] (Some engine_failure))) pipe_ok ''text'')
              = Some engine_failure"
    by (simp add: RunE_text_unfold[OF i1] del: straight.simps)
  note i2 = invoke_straight_rc[of "[reject_os]" "Some engine_failure" "\<lparr>rc_results = [], rc_failed = False\<rparr>"]
  have a3: "rc_failed (fst (snd (invoke_Probe (new_probes (straight [reject_os] (Some engine_failure)))
                                   rc_call \<lparr>rc_results = [], rc_failed = False\<rparr>)))"
    using f by (simp add: i2 rc_after_failed del: straight.simps)
  have a4: "fst (collectAndPrint (new_probes (straight [reject_os] (Some engine_failure)))
                   pipe_ok marshal_categories) = Some engine_failure"
    by (simp add: collectAndPrint_straight del: straight.simps)
  have a5: "Some engine_failure \<noteq> Some (errors_New ''sysinfo failed'')"
    "Some (GoError ''broken pipe'') \<noteq> Some (errors_New ''sysinfo failed'')"
    by (simp_all add: engine_failure_def errors_New_def)
  obtain err r1 where c: "cli_call ?b reject_os = (err, r1)"
    by (cases "cli_call ?b reject_os")
  have "reply (cli_w ?b) = (\<lambda>before b. Some (GoError ''broken pipe''))"
    by (simp add: new_cliReporter_def pipe_broken_def)
  then have e: "err = Some (GoError ''broken pipe'')"
    using cli_call_one_write[of ?b reject_os] c by simp
  have r1: "cli_failed r1"
    using cli_call_failed[of ?b reject_os] c f by simp
  have run: "run (straight [reject_os] None) cli_call ?b [] =
               (Some (GoError ''broken pipe''), r1, [reject_os])"
    using c e by simp
  have i3: "invoke_Probe (new_probes (straight [reject_os] None)) cli_call ?b =
              (Some (GoError ''broken pipe''), r1,
               \<lparr>behaviour = straight [reject_os] None, invoked = 1, calls = [reject_os]\<rparr>)"
    by (simp add: invoke_Probe_def new_probes_def run del: straight.simps)
  have a6: "cli_failed (fst (snd (invoke_Probe (new_probes (straight [reject_os] None)) cli_call ?b)))"
    using r1 by (simp add: i3 del: straight.simps)
  have a7: "fst (RunE sample_libs (new_probes (straight [reject_os] None)) pipe_broken ''text'')
              = Some (GoError ''broken pipe'')"
    by (simp add: RunE_text_unfold[OF i3] del: straight.simps)
  from a1 a2 a3 a4 a5 a6 a7 show ?thesis by blast
qed

subsection \<open>The output format\<close>

text \<open>
  C4. For every output format other than "text", "json" and "yaml", the command returns
  the error "unknown output format: ..." with the quoted format, the engine's \<^verbatim>\<open>Probe\<close>
  is not invoked, no callback occurs, and nothing is written.
\<close>

theorem RunE_unknown_output_format:
  assumes "outputFormat \<noteq> ''text''" and "outputFormat \<noteq> ''json''" and "outputFormat \<noteq> ''yaml''"
  shows "RunE lib probes out outputFormat =
           (Some (GoError (''unknown output format: '' @ quote lib outputFormat)), out, probes)
         \<and> invoked (snd (snd (RunE lib probes out outputFormat))) = invoked probes
         \<and> calls (snd (snd (RunE lib probes out outputFormat))) = calls probes
         \<and> writes (fst (snd (RunE lib probes out outputFormat))) = writes out"
  using assms by (simp add: RunE_def)

theorem RunE_unknown_output_format_witness:
  "''csv'' \<noteq> ''text'' \<and> ''csv'' \<noteq> ''json'' \<and> ''csv'' \<noteq> ''yaml''
   \<and> RunE sample_libs (new_probes (straight [pass_os] None)) pipe_ok ''csv'' =
       (Some (GoError (''unknown output format: '' @ [CHR 0x22] @ ''csv'' @ [CHR 0x22])), pipe_ok,
        new_probes (straight [pass_os] None))
   \<and> invoked (snd (snd (RunE sample_libs (new_probes (straight [pass_os] None)) pipe_ok ''csv''))) = 0
   \<and> calls (snd (snd (RunE sample_libs (new_probes (straight [pass_os] None)) pipe_ok ''csv''))) = []"
proof -
  have h: "''csv'' \<noteq> ''text''" "''csv'' \<noteq> ''json''" "''csv'' \<noteq> ''yaml''"
    by simp_all
  show ?thesis
    using RunE_unknown_output_format[OF h, of sample_libs "new_probes (straight [pass_os] None)" pipe_ok]
    by (simp add: sample_libs_def new_probes_def del: straight.simps)
qed

subsection \<open>The collector\<close>

text \<open>
  C9. Every callback of the collector appends exactly one record at the end of the
  collector's sequence and leaves the records that were there before as they were; so
  after any further callbacks the earlier sequence is still the beginning of the
  collector's sequence.
\<close>

theorem collector_appends_one_record:
  "rc_results (snd (rc_call r cb)) = rc_results r @ [record_of cb]
   \<and> length (rc_results (snd (rc_call r cb))) = length (rc_results r) + 1
   \<and> take (length (rc_results r)) (rc_results (snd (rc_call r cb))) = rc_results r
   \<and> rc_results (rc_after r cbs) = rc_results r @ map record_of cbs
   \<and> take (length (rc_results r)) (rc_results (rc_after r cbs)) = rc_results r"
  by (simp add: rc_call_results rc_after_results)

theorem collector_appends_one_record_witness:
  "rc_results (snd (rc_call (rc_after \<lparr>rc_results = [], rc_failed = False\<rparr> [pass_os]) reject_os))
     = [\<lparr>Path = [''os''], DisplayName = ''os'', Prop = ''linux'', Message = '''',
         Category = ''pass'', Error = None\<rparr>,
        \<lparr>Path = [''os''], DisplayName = ''os'', Prop = '''', Message = ''unsupported'',
         Category = ''rejected'', Error = None\<rparr>]"
  using collector_appends_one_record[of "rc_after \<lparr>rc_results = [], rc_failed = False\<rparr> [pass_os]"
      reject_os "[]"]
    collector_appends_one_record[of "\<lparr>rc_results = [], rc_failed = False\<rparr>" pass_os "[pass_os]"]
  by (simp add: record_of_def pass_os_def reject_os_def rc_Pass_def rc_Reject_def desc_os_def
      probePath_def propString_def ProbeCategoryPass_def ProbeCategoryRejected_def)

text \<open>
  C10. Every callback of the collector returns nil. On the structured path the error
  returned is therefore the engine's own error, the error "sysinfo failed", the error of
  the serializer, or what the sink answers to the one write.
\<close>

theorem collector_callbacks_return_nil:
  assumes "invoke_Probe probe rc_call \<lparr>rc_results = [], rc_failed = False\<rparr> = (err, c, probe')"
  shows "fst (rc_Pass r p v) = None \<and> fst (rc_Warn r p v msg) = None
       \<and> fst (rc_Reject r p v msg) = None \<and> fst (rc_Error r p e) = None
       \<and> ((err \<noteq> None \<and> fst (collectAndPrint probe out marshal) = err)
          \<or> fst (collectAndPrint probe out marshal) = Some (errors_New ''sysinfo failed'')
          \<or> (\<exists>e'. marshal (rc_results c) = Inl e' \<and> fst (collectAndPrint probe out marshal) = Some e')
          \<or> (\<exists>bytes. marshal (rc_results c) = Inr bytes
                \<and> collectAndPrint probe out marshal =
                    (reply out (writes out) bytes, out\<lparr>writes := writes out @ [bytes]\<rparr>, probe')))"
proof -
  have a: "fst (rc_Pass r p v) = None" "fst (rc_Warn r p v msg) = None"
    "fst (rc_Reject r p v msg) = None" "fst (rc_Error r p e) = None"
    using rc_call_nil[of r "OnPass p v"] rc_call_nil[of r "OnWarn p v msg"]
      rc_call_nil[of r "OnReject p v msg"] rc_call_nil[of r "OnError p e"] by simp_all
  have b: "(err \<noteq> None \<and> fst (collectAndPrint probe out marshal) = err)
          \<or> fst (collectAndPrint probe out marshal) = Some (errors_New ''sysinfo failed'')
          \<or> (\<exists>e'. marshal (rc_results c) = Inl e' \<and> fst (collectAndPrint probe out marshal) = Some e')
          \<or> (\<exists>bytes. marshal (rc_results c) = Inr bytes
                \<and> collectAndPrint probe out marshal =
                    (reply out (writes out) bytes, out\<lparr>writes := writes out @ [bytes]\<rparr>, probe'))"
    by (cases "marshal (rc_results c)") (simp_all add: collectAndPrint_unfold[OF assms])
  from a b show ?thesis by blast
qed

theorem collector_callbacks_return_nil_witness:
  "invoke_Probe (new_probes (straight [pass_os, warn_kernel] None)) rc_call
       \<lparr>rc_results = [], rc_failed = False\<rparr>
     = (None, rc_after \<lparr>rc_results = [], rc_failed = False\<rparr> [pass_os, warn_kernel],
        \<lparr>behaviour = straight [pass_os, warn_kernel] None, invoked = 1, calls = [pass_os, warn_kernel]\<rparr>)
   \<and> fst (rc_Reject \<lparr>rc_results = [], rc_failed = False\<rparr> desc_os None ''unsupported'') = None
   \<and> fst (rc_Error \<lparr>rc_results = [], rc_failed = False\<rparr> desc_os (Some engine_failure)) = None"
proof -
  have h1: "invoke_Probe (new_probes (straight [pass_os, warn_kernel] None)) rc_call
       \<lparr>rc_results = [], rc_failed = False\<rparr>
     = (None, rc_after \<lparr>rc_results = [], rc_failed = False\<rparr> [pass_os, warn_kernel],
        \<lparr>behaviour = straight [pass_os, warn_kernel] None, invoked = 1, calls = [pass_os, warn_kernel]\<rparr>)"
    by (rule invoke_straight_rc)
  show ?thesis
    using collector_callbacks_return_nil[OF h1, where r = "\<lparr>rc_results = [], rc_failed = False\<rparr>"
        and p = desc_os and v = None and msg = "''unsupported''" and e = "Some engine_failure"
        and out = pipe_ok and marshal = marshal_categories] h1
    by (simp del: straight.simps)
qed

subsection \<open>What the human reporter prints\<close>

lemma plain_reporter: "\<not> isTerminal out \<Longrightarrow> cli_colors (new_cliReporter lib out) = auroraClear"
  by (simp add: new_cliReporter_def NewAurora_def)

lemma coloured_reporter: "isTerminal out \<Longrightarrow> cli_colors (new_cliReporter lib out) = aurora (paint lib)"
  by (simp add: new_cliReporter_def NewAurora_def)

lemma writes_new_cliReporter: "writes (cli_w (new_cliReporter lib out)) = writes out"
  by (simp add: new_cliReporter_def)

lemma indent_samples: "indent (Some desc_os) = ''''" "indent (Some desc_nested) = ''    ''"
  by (simp_all add: indent_def desc_os_def desc_nested_def strings_Repeat_def eval_nat_numeral)

text \<open>
  C6. The Error callback of the human reporter prints, after the indentation and the
  display name with its colon and space, the word "error" alone when the error is nil or
  has an empty text, and "error: " followed by the text of the error when that text is
  not empty; with colours off the printed text is these words themselves.
\<close>

theorem cli_Error_text:
  "writes (cli_w (snd (cli_Error r p None))) =
     writes (cli_w r) @
       [indent (Some p) @ shown (cli_colors r) (fgColor BrightWhiteFg) (desc_DisplayName p @ '': '')
          @ shown (cli_colors r) (boldFgColor RedFg) ''error'' @ ''\<newline>'']
   \<and> (Error_text e \<noteq> '''' \<longrightarrow>
        writes (cli_w (snd (cli_Error r p (Some e)))) =
          writes (cli_w r) @
            [indent (Some p) @ shown (cli_colors r) (fgColor BrightWhiteFg) (desc_DisplayName p @ '': '')
               @ shown (cli_colors r) (boldFgColor RedFg) (''error: '' @ Error_text e) @ ''\<newline>''])
   \<and> (Error_text e = '''' \<longrightarrow>
        writes (cli_w (snd (cli_Error r p (Some e)))) =
          writes (cli_w r) @
            [indent (Some p) @ shown (cli_colors r) (fgColor BrightWhiteFg) (desc_DisplayName p @ '': '')
               @ shown (cli_colors r) (boldFgColor RedFg) ''error'' @ ''\<newline>''])
   \<and> (cli_colors r = auroraClear \<longrightarrow>
        writes (cli_w (snd (cli_Error r p None))) =
          writes (cli_w r) @ [indent (Some p) @ desc_DisplayName p @ '': '' @ ''error'' @ ''\<newline>''])
   \<and> (cli_colors r = auroraClear \<and> Error_text e \<noteq> '''' \<longrightarrow>
        writes (cli_w (snd (cli_Error r p (Some e)))) =
          writes (cli_w r) @
            [indent (Some p) @ desc_DisplayName p @ '': '' @ ''error: '' @ Error_text e @ ''\<newline>''])
   \<and> (cli_colors r = auroraClear \<and> Error_text e = '''' \<longrightarrow>
        writes (cli_w (snd (cli_Error r p (Some e)))) =
          writes (cli_w r) @ [indent (Some p) @ desc_DisplayName p @ '': '' @ ''error'' @ ''\<newline>''])"
  by (simp add: cli_Error_emit emit_def shown_clear)

theorem cli_Error_text_witness:
  "cli_colors (new_cliReporter sample_libs pipe_ok) = auroraClear
   \<and> Error_text engine_failure \<noteq> '''' \<and> Error_text (GoError '''') = ''''
   \<and> writes (cli_w (snd (cli_Error (new_cliReporter sample_libs pipe_ok) desc_nested None)))
       = [''    kernel: error\<newline>'']
   \<and> writes (cli_w (snd (cli_Error (new_cliReporter sample_libs pipe_ok) desc_nested
                            (Some engine_failure))))
       = [''    kernel: error: probe engine failure\<newline>'']
   \<and> writes (cli_w (snd (cli_Error (new_cliReporter sample_libs pipe_ok) desc_nested
                            (Some (GoError '''')))))
       = [''    kernel: error\<newline>'']
   \<and> writes (cli_w (snd (cli_Error (new_cliReporter sample_libs tty_ok) desc_nested
                            (Some engine_failure))))
       = [''    [kernel: ][error: probe engine failure]\<newline>'']"
proof -
  have plain: "cli_colors (new_cliReporter sample_libs pipe_ok) = auroraClear"
    by (simp add: plain_reporter pipe_ok_def)
  have col: "cli_colors (new_cliReporter sample_libs tty_ok) = aurora (\<lambda>c s. ''['' @ s @ '']'')"
    by (simp add: coloured_reporter tty_ok_def sample_libs_def)
  have et: "Error_text engine_failure \<noteq> ''''" "Error_text (GoError '''') = ''''"
    "Error_text engine_failure = ''probe engine failure''"
    by (simp_all add: engine_failure_def)
  have w: "writes (cli_w (new_cliReporter sample_libs pipe_ok)) = []"
    "writes (cli_w (new_cliReporter sample_libs tty_ok)) = []"
    by (simp_all add: writes_new_cliReporter pipe_ok_def tty_ok_def)
  have d: "desc_DisplayName desc_nested = ''kernel''"
    by (simp add: desc_nested_def)
  show ?thesis
    using cli_Error_text[of "new_cliReporter sample_libs pipe_ok" desc_nested engine_failure]
      cli_Error_text[of "new_cliReporter sample_libs pipe_ok" desc_nested "GoError ''''"]
      cli_Error_text[of "new_cliReporter sample_libs tty_ok" desc_nested engine_failure]
      plain col et w d
    by (simp add: indent_samples shown_color shown_clear)
qed




subsection \<open>One line for each callback\<close>

lemma indent_no_newline: "CHR ''\<newline>'' \<notin> set (indent q)"
  by (cases q) (simp_all add: indent_def strings_Repeat_def Let_def concat_replicate_two_spaces)

lemma buildMsg_no_newline:
  "CHR ''\<newline>'' \<notin> set category \<Longrightarrow> CHR ''\<newline>'' \<notin> set msg
     \<Longrightarrow> CHR ''\<newline>'' \<notin> set (buildMsg prop category msg)"
  by (simp add: buildMsg_eq)

lemma shown_no_newline:
  assumes "\<forall>pt c s. au = aurora pt \<and> CHR ''\<newline>'' \<notin> set s \<longrightarrow> CHR ''\<newline>'' \<notin> set (pt c s)"
    and "CHR ''\<newline>'' \<notin> set s"
  shows "CHR ''\<newline>'' \<notin> set (shown au c s)"
  using assms by (cases au) (simp_all add: shown_clear shown_color)

lemma single_line_body: "CHR ''\<newline>'' \<notin> set body \<Longrightarrow> single_line (body @ ''\<newline>'')"
  by (simp add: single_line_def)

lemma cli_line_cases:
  "cli_line r (OnPass p v) =
     (indent (Some p) @ shown (cli_colors r) (fgColor BrightWhiteFg) (desc_DisplayName p @ '': '')
        @ shown (cli_colors r) (fgColor GreenFg) (propString v)
        @ buildMsg (propString v) ''pass'' '''') @ ''\<newline>''"
  "cli_line r (OnWarn p v msg) =
     (indent (Some p) @ shown (cli_colors r) (fgColor BrightWhiteFg) (desc_DisplayName p @ '': '')
        @ shown (cli_colors r) (fgColor YellowFg) (propString v)
        @ buildMsg (propString v) ''warning'' msg) @ ''\<newline>''"
  "cli_line r (OnReject p v msg) =
     (indent (Some p) @ shown (cli_colors r) (fgColor BrightWhiteFg) (desc_DisplayName p @ '': '')
        @ shown (cli_colors r) (boldFgColor RedFg) (propString v)
        @ buildMsg (propString v) ''rejected'' msg) @ ''\<newline>''"
  "cli_line r (OnError p err) =
     (indent (Some p) @ shown (cli_colors r) (fgColor BrightWhiteFg) (desc_DisplayName p @ '': '')
        @ shown (cli_colors r) (boldFgColor RedFg)
            (case err of
               None \<Rightarrow> ''error''
             | Some e \<Rightarrow> if Error_text e \<noteq> '''' then ''error: '' @ Error_text e else ''error''))
     @ ''\<newline>''"
  by (simp_all add: cli_line_def cli_emit emit_def)

lemma cli_line_single:
  assumes texts: "\<forall>s\<in>set (texts_of cb). CHR ''\<newline>'' \<notin> set s"
    and paint: "\<forall>pt c s. cli_colors r = aurora pt \<and> CHR ''\<newline>'' \<notin> set s
                  \<longrightarrow> CHR ''\<newline>'' \<notin> set (pt c s)"
  shows "single_line (cli_line r cb)"
proof (cases cb)
  case (OnPass p v)
  with texts have t: "CHR ''\<newline>'' \<notin> set (desc_DisplayName p)" "CHR ''\<newline>'' \<notin> set (propString v)"
    by (simp_all add: texts_of_def)
  have "CHR ''\<newline>'' \<notin> set (desc_DisplayName p @ '': '')" using t by simp
  then show ?thesis
    unfolding OnPass cli_line_cases
    by (intro single_line_body)
      (simp add: indent_no_newline shown_no_newline[OF paint] buildMsg_no_newline t)
next
  case (OnWarn p v msg)
  with texts have t: "CHR ''\<newline>'' \<notin> set (desc_DisplayName p)" "CHR ''\<newline>'' \<notin> set (propString v)"
    "CHR ''\<newline>'' \<notin> set msg"
    by (simp_all add: texts_of_def)
  have "CHR ''\<newline>'' \<notin> set (desc_DisplayName p @ '': '')" using t by simp
  then show ?thesis
    unfolding OnWarn cli_line_cases
    by (intro single_line_body)
      (simp add: indent_no_newline shown_no_newline[OF paint] buildMsg_no_newline t)
next
  case (OnReject p v msg)
  with texts have t: "CHR ''\<newline>'' \<notin> set (desc_DisplayName p)" "CHR ''\<newline>'' \<notin> set (propString v)"
    "CHR ''\<newline>'' \<notin> set msg"
    by (simp_all add: texts_of_def)
  have "CHR ''\<newline>'' \<notin> set (desc_DisplayName p @ '': '')" using t by simp
  then show ?thesis
    unfolding OnReject cli_line_cases
    by (intro single_line_body)
      (simp add: indent_no_newline shown_no_newline[OF paint] buildMsg_no_newline t)
next
  case (OnError p err)
  with texts have t: "CHR ''\<newline>'' \<notin> set (desc_DisplayName p)"
    "CHR ''\<newline>'' \<notin> set (case err of None \<Rightarrow> '''' | Some e \<Rightarrow> Error_text e)"
    by (simp_all add: texts_of_def)
  have n: "CHR ''\<newline>'' \<notin> set (desc_DisplayName p @ '': '')" using t by simp
  have e: "CHR ''\<newline>'' \<notin> set (case err of
               None \<Rightarrow> ''error''
             | Some e \<Rightarrow> if Error_text e \<noteq> '''' then ''error: '' @ Error_text e else ''error'')"
    using t(2) by (cases err) simp_all
  show ?thesis
    unfolding OnError cli_line_cases
    by (intro single_line_body)
      (simp add: indent_no_newline shown_no_newline[OF paint n] shown_no_newline[OF paint e])
qed

text \<open>
  C8. Every callback of the human reporter makes exactly one write to the sink and returns
  what the sink answers to it, so the error of a failed write is returned as it is. When
  the display name, the property string and the message (for an Error callback, the text
  of the error) contain no newline, and colouring puts no newline into a text that has
  none, what is written is a single line: it ends in a newline and contains no other.
\<close>

theorem cli_callback_writes_one_line:
  "writes (cli_w (snd (cli_call r cb))) = writes (cli_w r) @ [cli_line r cb]
   \<and> fst (cli_call r cb) = reply (cli_w r) (writes (cli_w r)) (cli_line r cb)
   \<and> ((\<forall>s\<in>set (texts_of cb). CHR ''\<newline>'' \<notin> set s)
        \<and> (\<forall>pt c s. cli_colors r = aurora pt \<and> CHR ''\<newline>'' \<notin> set s
              \<longrightarrow> CHR ''\<newline>'' \<notin> set (pt c s))
       \<longrightarrow> single_line (cli_line r cb))"
  using cli_call_one_write[of r cb] cli_line_single[of cb r] by blast

theorem cli_callback_writes_one_line_witness:
  "texts_of pass_os = [''os'', ''linux'']
   \<and> cli_colors (new_cliReporter sample_libs pipe_broken) = auroraClear
   \<and> cli_line (new_cliReporter sample_libs pipe_broken) pass_os = ''os: linux (pass)\<newline>''
   \<and> writes (cli_w (snd (cli_call (new_cliReporter sample_libs pipe_broken) pass_os)))
       = [''os: linux (pass)\<newline>'']
   \<and> fst (cli_call (new_cliReporter sample_libs pipe_broken) pass_os) = Some (GoError ''broken pipe'')
   \<and> single_line ''os: linux (pass)\<newline>''
   \<and> texts_of warn_kernel = [''kernel'', ''5.4'', ''old kernel'']
   \<and> cli_colors (new_cliReporter sample_libs tty_ok) = aurora (paint sample_libs)
   \<and> (\<forall>c s. (CHR ''\<newline>'' \<in> set (paint sample_libs c s)) = (CHR ''\<newline>'' \<in> set s))
   \<and> cli_line (new_cliReporter sample_libs tty_ok) warn_kernel
       = ''    [kernel: ][5.4] (warning: old kernel)\<newline>''
   \<and> writes (cli_w (snd (cli_call (new_cliReporter sample_libs tty_ok) warn_kernel)))
       = [''    [kernel: ][5.4] (warning: old kernel)\<newline>'']
   \<and> fst (cli_call (new_cliReporter sample_libs tty_ok) warn_kernel) = None
   \<and> single_line ''    [kernel: ][5.4] (warning: old kernel)\<newline>''"
proof -
  let ?r = "new_cliReporter sample_libs pipe_broken"
  let ?t = "new_cliReporter sample_libs tty_ok"
  have plain: "cli_colors ?r = auroraClear"
    by (simp add: plain_reporter pipe_broken_def)
  have t: "texts_of pass_os = [''os'', ''linux'']"
    by (simp add: texts_of_def pass_os_def desc_os_def propString_def)
  have h1: "\<forall>s\<in>set (texts_of pass_os). CHR ''\<newline>'' \<notin> set s"
    by (simp add: t)
  have h2: "\<forall>pt c s. cli_colors ?r = aurora pt \<and> CHR ''\<newline>'' \<notin> set s
              \<longrightarrow> CHR ''\<newline>'' \<notin> set (pt c s)"
    by (simp add: plain)
  have d: "desc_DisplayName desc_os = ''os''" "desc_DisplayName desc_nested = ''kernel''"
    by (simp_all add: desc_os_def desc_nested_def)
  have l: "cli_line ?r pass_os = ''os: linux (pass)\<newline>''"
    by (simp add: pass_os_def cli_line_cases plain shown_clear indent_samples buildMsg_eq
        propString_def d)
  have w: "writes (cli_w ?r) = []" "reply (cli_w ?r) = (\<lambda>before b. Some (GoError ''broken pipe''))"
    by (simp_all add: new_cliReporter_def pipe_broken_def)
  have col: "cli_colors ?t = aurora (paint sample_libs)"
    by (simp add: coloured_reporter tty_ok_def)
  have pt: "\<forall>c s. (CHR ''\<newline>'' \<in> set (paint sample_libs c s)) = (CHR ''\<newline>'' \<in> set s)"
    by (simp add: sample_libs_def)
  have t2: "texts_of warn_kernel = [''kernel'', ''5.4'', ''old kernel'']"
    by (simp add: texts_of_def warn_kernel_def desc_nested_def propString_def)
  have h3: "\<forall>s\<in>set (texts_of warn_kernel). CHR ''\<newline>'' \<notin> set s"
    by (simp add: t2)
  have h4: "\<forall>pt c s. cli_colors ?t = aurora pt \<and> CHR ''\<newline>'' \<notin> set s
              \<longrightarrow> CHR ''\<newline>'' \<notin> set (pt c s)"
    using pt by (simp add: col)
  have p: "paint sample_libs = (\<lambda>c s. ''['' @ s @ '']'')"
    by (simp add: sample_libs_def)
  have l2: "cli_line ?t warn_kernel = ''    [kernel: ][5.4] (warning: old kernel)\<newline>''"
    by (simp add: warn_kernel_def cli_line_cases col p shown_color indent_samples buildMsg_eq
        propString_def d)
  have w2: "writes (cli_w ?t) = []" "reply (cli_w ?t) = (\<lambda>before b. None)"
    by (simp_all add: new_cliReporter_def tty_ok_def)
  have one: "writes (cli_w (snd (cli_call ?r pass_os))) = [''os: linux (pass)\<newline>'']
      \<and> fst (cli_call ?r pass_os) = Some (GoError ''broken pipe'')
      \<and> single_line ''os: linux (pass)\<newline>''"
    using cli_callback_writes_one_line[of ?r pass_os] h1 h2 l w by simp
  have two: "writes (cli_w (snd (cli_call ?t warn_kernel)))
               = [''    [kernel: ][5.4] (warning: old kernel)\<newline>'']
      \<and> fst (cli_call ?t warn_kernel) = None
      \<and> single_line ''    [kernel: ][5.4] (warning: old kernel)\<newline>''"
    using cli_callback_writes_one_line[of ?t warn_kernel] h3 h4 l2 w2 by simp
  from t plain l one t2 col pt l2 two show ?thesis by blast
qed

text \<open>
  The message of an Error callback is the text of its error, and the assumption is needed
  for it as for the other texts: an error text of two lines is written as it is.
\<close>

lemma cli_Error_message_two_lines:
  "CHR ''\<newline>'' \<notin> set (desc_DisplayName desc_os)
   \<and> cli_colors (new_cliReporter sample_libs pipe_ok) = auroraClear
   \<and> cli_line (new_cliReporter sample_libs pipe_ok)
         (OnError desc_os (Some (GoError ''exit status 1\<newline>no such file'')))
       = ''os: error: exit status 1\<newline>no such file\<newline>''
   \<and> \<not> single_line (cli_line (new_cliReporter sample_libs pipe_ok)
                        (OnError desc_os (Some (GoError ''exit status 1\<newline>no such file''))))"
proof -
  have plain: "cli_colors (new_cliReporter sample_libs pipe_ok) = auroraClear"
    by (simp add: plain_reporter pipe_ok_def)
  have d: "desc_DisplayName desc_os = ''os''"
    by (simp add: desc_os_def)
  have l: "cli_line (new_cliReporter sample_libs pipe_ok)
             (OnError desc_os (Some (GoError ''exit status 1\<newline>no such file'')))
           = ''os: error: exit status 1\<newline>no such file\<newline>''"
    by (simp add: cli_line_cases plain shown_clear indent_samples d)
  have s: "\<not> single_line ''os: error: exit status 1\<newline>no such file\<newline>''"
    by (simp add: single_line_def)
  from plain d l s show ?thesis by simp
qed

subsection \<open>Sample runs of the command\<close>

lemma RunE_json_sample:
  "RunE sample_libs (new_probes (straight [pass_os, warn_kernel] None)) pipe_ok ''json'' =
     (None, pipe_ok\<lparr>writes := [''pass;warning;'']\<rparr>,
      \<lparr>behaviour = straight [pass_os, warn_kernel] None, invoked = 1, calls = [pass_os, warn_kernel]\<rparr>)"
proof -
  have f: "\<not> is_failure pass_os" "\<not> is_failure warn_kernel"
    by (simp_all add: is_failure_def pass_os_def warn_kernel_def)
  have m: "marshal_categories (map record_of [pass_os, warn_kernel]) = Inr ''pass;warning;''"
    by (simp add: marshal_categories_def Category_record_of category_of_def pass_os_def
        warn_kernel_def ProbeCategoryPass_def ProbeCategoryWarning_def)
  have j: "json_MarshalIndent sample_libs = marshal_categories"
    by (simp add: sample_libs_def)
  have "RunE sample_libs (new_probes (straight [pass_os, warn_kernel] None)) pipe_ok ''json'' =
          collectAndPrint (new_probes (straight [pass_os, warn_kernel] None)) pipe_ok marshal_categories"
    by (simp add: RunE_def j del: straight.simps)
  also have "\<dots> = (None, pipe_ok\<lparr>writes := [''pass;warning;'']\<rparr>,
      \<lparr>behaviour = straight [pass_os, warn_kernel] None, invoked = 1, calls = [pass_os, warn_kernel]\<rparr>)"
    using f m by (simp add: collectAndPrint_straight pipe_ok_def del: straight.simps)
  finally show ?thesis .
qed

lemma RunE_text_sample:
  "RunE sample_libs (new_probes (straight [pass_os, reject_os] None)) pipe_ok ''text'' =
     (Some (errors_New ''sysinfo failed''),
      pipe_ok\<lparr>writes := [''os: linux (pass)\<newline>'', ''os: (rejected: unsupported)\<newline>'']\<rparr>,
      \<lparr>behaviour = straight [pass_os, reject_os] None, invoked = 1, calls = [pass_os, reject_os]\<rparr>)"
proof -
  let ?r = "new_cliReporter sample_libs pipe_ok"
  have quiet: "\<And>before b. reply (cli_w ?r) before b = None"
    by (simp add: new_cliReporter_def pipe_ok_def)
  have plain: "cli_colors ?r = auroraClear"
    by (simp add: plain_reporter pipe_ok_def)
  have d: "desc_DisplayName desc_os = ''os''"
    by (simp add: desc_os_def)
  have s1: "cli_Pass ?r desc_os (Some (ProbedProp ''linux'')) =
              (None, ?r\<lparr>cli_w := pipe_ok\<lparr>writes := [''os: linux (pass)\<newline>'']\<rparr>\<rparr>)"
    by (simp add: cli_Pass_emit emit_def plain shown_clear indent_samples d buildMsg_eq propString_def)
      (simp add: new_cliReporter_def pipe_ok_def)
  let ?r1 = "?r\<lparr>cli_w := pipe_ok\<lparr>writes := [''os: linux (pass)\<newline>'']\<rparr>\<rparr>"
  have plain1: "cli_colors ?r1 = auroraClear"
    using plain by simp
  have s2: "cli_Reject ?r1 desc_os None ''unsupported'' =
              (None, ?r\<lparr>cli_failed := True,
                        cli_w := pipe_ok\<lparr>writes := [''os: linux (pass)\<newline>'',
                                                     ''os: (rejected: unsupported)\<newline>'']\<rparr>\<rparr>)"
    by (simp add: cli_Reject_emit emit_def plain1 shown_clear indent_samples d buildMsg_eq propString_def)
      (simp add: new_cliReporter_def pipe_ok_def)
  have a: "cli_after ?r [pass_os, reject_os] =
             ?r\<lparr>cli_failed := True,
                 cli_w := pipe_ok\<lparr>writes := [''os: linux (pass)\<newline>'',
                                              ''os: (rejected: unsupported)\<newline>'']\<rparr>\<rparr>"
    by (simp add: cli_after_def pass_os_def reject_os_def s1 s2)
  show ?thesis
    by (simp add: RunE_text_unfold[OF invoke_straight_cli[OF quiet]] a del: straight.simps)
qed

end
